theory Spec2Isabelle
  imports Main
begin

section \<open>The project configuration header of the LoRaWAN stack\<close>

text \<open>
  The repository consists of one C preprocessor header, \<^verbatim>\<open>lmic_project_config.h\<close>.
  It has no functions: what it does is decided by the C preprocessor, which reads it line
  by line and leaves a table of macro definitions behind. The header is embedded as the
  list of its lines, and the part of the preprocessor it exercises (line comments,
  \<^verbatim>\<open>#ifndef\<close>, \<^verbatim>\<open>#define\<close> of object-like macros, \<^verbatim>\<open>#undef\<close>, \<^verbatim>\<open>#endif\<close>)
  as executable functions over these lines.
\<close>

subsection \<open>The header, line by line\<close>

definition lmic_project_config_h :: "string list" where
  "lmic_project_config_h =
   [''// LMIC Project Configuration for T-Weigh LoRaWAN'',
    ''#ifndef _lmic_project_config_h_'',
    ''#define _lmic_project_config_h_'',
    '''',
    ''// Enable AU915 region'',
    ''#define CFG_au915 1'',
    '''',
    ''// Disable other regions to save space'',
    ''#undef CFG_eu868'',
    ''#undef CFG_us915'',
    '''',
    ''// Select radio chip - SX1262'',
    ''#define CFG_sx1262_radio 1'',
    ''#undef CFG_sx1276_radio'',
    ''#undef CFG_sx1272_radio'',
    ''//#define CFG_LMIC_REGION_MASK LMIC_REGION_au915'',
    '''',
    ''// Disable unused features'',
    ''#define DISABLE_PING'',
    ''#define DISABLE_BEACONS'',
    '''',
    ''// Enable verbose debugging for SX1262 issues'',
    ''#define LMIC_DEBUG_LEVEL 2'',
    ''#define LMIC_PRINTF_TO Serial.printf'',
    '''',
    ''// Important for ESP32 timing'',
    ''#define LMIC_ENABLE_arbitrary_clock_error 1'',
    '''',
    ''// ESP32 specific'',
    ''#define OSTICKS_PER_SEC 32768'',
    '''',
    ''// Disable LMIC's built-in failure handling'',
    ''#define LMIC_FAILURE_TO Serial.printf'',
    '''',
    ''// Disable LMIC assertions for debugging'',
    ''#define DISABLE_LMIC_FAILURE_TO'',
    '''',
    ''// Allow clock error'',
    ''#define LMIC_CLOCKERROR_PPM 10'',
    '''',
    ''// Use interrupts for better timing'',
    ''#define LMIC_USE_INTERRUPTS'',
    '''',
    ''// SX1262 specific settings'',
    ''#define LMIC_SX1262_TXCO_STARTUP_DELAY 5'',
    '''',
    ''// Allow relaxed timing for debugging'',
    ''#define LMIC_ENABLE_long_messages 1'',
    '''',
    ''#endif'']"

subsection \<open>Reading one line\<close>

text \<open>
  A line is a directive when its first character after blanks is \<^verbatim>\<open>#\<close>. A line comment
  runs from \<^verbatim>\<open>//\<close> to the end of the line and is removed before directives are
  recognised, so a commented-out \<^verbatim>\<open>//#define\<close> defines nothing. The replacement text of
  an object-like macro is kept as the string that follows the name, empty for a bare
  \<^verbatim>\<open>#define NAME\<close>. Whatever the header does not use (other directives, function-like
  macros, a directive without its macro name) is read as \<open>Unsupported\<close> and stops the
  preprocessor with an error instead of being guessed at; block comments, string literals
  and line continuations do not occur in the header and are not recognised.
\<close>

datatype directive =
    Ifndef string
  | Define string string
  | Undef string
  | Endif
  | Text_line
  | Unsupported string

definition is_blank :: "char \<Rightarrow> bool" where
  "is_blank c = (c = CHR '' '' \<or> c = CHR 0x09)"

definition is_ident_char :: "char \<Rightarrow> bool" where
  "is_ident_char c =
     (let n = (of_char c :: nat) in
        (65 \<le> n \<and> n \<le> 90) \<or> (97 \<le> n \<and> n \<le> 122) \<or> (48 \<le> n \<and> n \<le> 57) \<or> n = 95)"

fun strip_comment :: "string \<Rightarrow> string" where
  "strip_comment (c # d # cs) =
     (if c = CHR ''/'' \<and> d = CHR ''/'' then [] else c # strip_comment (d # cs))"
| "strip_comment cs = cs"

definition skip_blanks :: "string \<Rightarrow> string" where
  "skip_blanks s = dropWhile is_blank s"

definition trim :: "string \<Rightarrow> string" where
  "trim s = rev (skip_blanks (rev (skip_blanks s)))"

definition parse_directive :: "string \<Rightarrow> directive" where
  "parse_directive s =
     (let u = skip_blanks s;
          kw = takeWhile is_ident_char u;
          rest = skip_blanks (dropWhile is_ident_char u);
          name = takeWhile is_ident_char rest;
          after = dropWhile is_ident_char rest
      in if kw = ''endif'' then Endif
         else if name = [] then Unsupported s
         else if kw = ''ifndef'' then Ifndef name
         else if kw = ''define'' then
           (if take 1 after = ''('' then Unsupported s else Define name (trim after))
         else if kw = ''undef'' then Undef name
         else Unsupported s)"

definition parse_line :: "string \<Rightarrow> directive" where
  "parse_line l =
     (case skip_blanks (strip_comment l) of
        [] \<Rightarrow> Text_line
      | c # r \<Rightarrow> if c = CHR ''#'' then parse_directive r else Text_line)"

definition header_directives :: "directive list" where
  "header_directives = map parse_line lmic_project_config_h"

subsection \<open>The preprocessor\<close>

text \<open>
  The state is the macro table (name to replacement text) and the stack of open
  conditional groups, innermost first, each entry telling whether its lines are
  processed. A \<^verbatim>\<open>#define\<close> of a name that is already defined replaces the entry, which is
  what the GNU preprocessor of the ESP32 toolchain does after its warning.
\<close>

type_synonym macros = "string \<rightharpoonup> string"

record pp_state =
  macro_table :: macros
  conds :: "bool list"

datatype pp_error =
    Endif_without_if
  | Unterminated_conditional
  | Unsupported_directive string

fun active :: "bool list \<Rightarrow> bool" where
  "active [] = True"
| "active (c # cs) = c"

fun step :: "directive \<Rightarrow> pp_state \<Rightarrow> pp_error + pp_state" where
  "step Text_line s = Inr s"
| "step (Ifndef n) s =
     Inr (s\<lparr>conds := (active (conds s) \<and> macro_table s n = None) # conds s\<rparr>)"
| "step Endif s =
     (case conds s of
        [] \<Rightarrow> Inl Endif_without_if
      | c # cs \<Rightarrow> Inr (s\<lparr>conds := cs\<rparr>))"
| "step (Define n b) s =
     Inr (if active (conds s) then s\<lparr>macro_table := (macro_table s)(n \<mapsto> b)\<rparr> else s)"
| "step (Undef n) s =
     Inr (if active (conds s) then s\<lparr>macro_table := (macro_table s)(n := None)\<rparr> else s)"
| "step (Unsupported l) s = Inl (Unsupported_directive l)"

fun run :: "directive list \<Rightarrow> pp_state \<Rightarrow> pp_error + pp_state" where
  "run [] s = (if conds s = [] then Inr s else Inl Unterminated_conditional)"
| "run (d # ds) s = (case step d s of Inl e \<Rightarrow> Inl e | Inr s' \<Rightarrow> run ds s')"

text \<open>Including the header: its lines are run with no conditional group open.\<close>

definition include_header :: "macros \<Rightarrow> pp_error + macros" where
  "include_header m =
     (case run header_directives \<lparr>macro_table = m, conds = []\<rparr> of
        Inl e \<Rightarrow> Inl e
      | Inr s \<Rightarrow> Inr (macro_table s))"

text \<open>
  Including the header \<open>n\<close> times in a row in one translation unit: each
  inclusion starts from the table the previous one left.
\<close>

fun include_times :: "nat \<Rightarrow> macros \<Rightarrow> pp_error + macros" where
  "include_times 0 m = Inr m"
| "include_times (Suc n) m =
     (case include_header m of Inl e \<Rightarrow> Inl e | Inr m' \<Rightarrow> include_times n m')"

subsection \<open>Reading the configuration\<close>

text \<open>
  The region flags and the radio flags that the header names (lines 5 to 10 and 12 to 15).
\<close>

definition region_flags :: "string list" where
  "region_flags = [''CFG_au915'', ''CFG_eu868'', ''CFG_us915'']"

definition radio_flags :: "string list" where
  "radio_flags = [''CFG_sx1262_radio'', ''CFG_sx1276_radio'', ''CFG_sx1272_radio'']"

text \<open>
  The number a macro stands for when its replacement text is a decimal integer constant
  (digits only, no leading zero, which would make it octal), as a later \<^verbatim>\<open>#if\<close> or the
  compiler reads it.
\<close>

definition is_digit :: "char \<Rightarrow> bool" where
  "is_digit c = (let n = (of_char c :: nat) in 48 \<le> n \<and> n \<le> 57)"

fun decimal_from :: "nat \<Rightarrow> string \<Rightarrow> nat option" where
  "decimal_from a [] = Some a"
| "decimal_from a (c # cs) =
     (if is_digit c then decimal_from (10 * a + (of_char c - 48)) cs else None)"

definition macro_value :: "macros \<Rightarrow> string \<Rightarrow> nat option" where
  "macro_value m n =
     (case m n of
        None \<Rightarrow> None
      | Some [] \<Rightarrow> None
      | Some (c # cs) \<Rightarrow>
          if c = CHR ''0'' \<and> cs \<noteq> [] then None else decimal_from 0 (c # cs))"

section \<open>What the header does\<close>

subsection \<open>The directives of the header\<close>

lemma header_directives_eq:
  "header_directives =
   [Text_line,
    Ifndef ''_lmic_project_config_h_'',
    Define ''_lmic_project_config_h_'' [],
    Text_line, Text_line,
    Define ''CFG_au915'' ''1'',
    Text_line, Text_line,
    Undef ''CFG_eu868'',
    Undef ''CFG_us915'',
    Text_line, Text_line,
    Define ''CFG_sx1262_radio'' ''1'',
    Undef ''CFG_sx1276_radio'',
    Undef ''CFG_sx1272_radio'',
    Text_line, Text_line, Text_line,
    Define ''DISABLE_PING'' [],
    Define ''DISABLE_BEACONS'' [],
    Text_line, Text_line,
    Define ''LMIC_DEBUG_LEVEL'' ''2'',
    Define ''LMIC_PRINTF_TO'' ''Serial.printf'',
    Text_line, Text_line,
    Define ''LMIC_ENABLE_arbitrary_clock_error'' ''1'',
    Text_line, Text_line,
    Define ''OSTICKS_PER_SEC'' ''32768'',
    Text_line, Text_line,
    Define ''LMIC_FAILURE_TO'' ''Serial.printf'',
    Text_line, Text_line,
    Define ''DISABLE_LMIC_FAILURE_TO'' [],
    Text_line, Text_line,
    Define ''LMIC_CLOCKERROR_PPM'' ''10'',
    Text_line, Text_line,
    Define ''LMIC_USE_INTERRUPTS'' [],
    Text_line, Text_line,
    Define ''LMIC_SX1262_TXCO_STARTUP_DELAY'' ''5'',
    Text_line, Text_line,
    Define ''LMIC_ENABLE_long_messages'' ''1'',
    Text_line,
    Endif]"
  by code_simp

subsection \<open>The macro table after an inclusion\<close>

text \<open>
  When the guard macro is not yet defined, the body of the header is processed: the
  inclusion cannot fail, and the table it leaves is the old one with the header's
  definitions and removals applied in order.
\<close>

lemma include_first:
  assumes "m ''_lmic_project_config_h_'' = None"
  shows "include_header m =
    Inr (m(''_lmic_project_config_h_'' \<mapsto> [],
           ''CFG_au915'' \<mapsto> ''1'',
           ''CFG_eu868'' := None,
           ''CFG_us915'' := None,
           ''CFG_sx1262_radio'' \<mapsto> ''1'',
           ''CFG_sx1276_radio'' := None,
           ''CFG_sx1272_radio'' := None,
           ''DISABLE_PING'' \<mapsto> [],
           ''DISABLE_BEACONS'' \<mapsto> [],
           ''LMIC_DEBUG_LEVEL'' \<mapsto> ''2'',
           ''LMIC_PRINTF_TO'' \<mapsto> ''Serial.printf'',
           ''LMIC_ENABLE_arbitrary_clock_error'' \<mapsto> ''1'',
           ''OSTICKS_PER_SEC'' \<mapsto> ''32768'',
           ''LMIC_FAILURE_TO'' \<mapsto> ''Serial.printf'',
           ''DISABLE_LMIC_FAILURE_TO'' \<mapsto> [],
           ''LMIC_CLOCKERROR_PPM'' \<mapsto> ''10'',
           ''LMIC_USE_INTERRUPTS'' \<mapsto> [],
           ''LMIC_SX1262_TXCO_STARTUP_DELAY'' \<mapsto> ''5'',
           ''LMIC_ENABLE_long_messages'' \<mapsto> ''1''))"
  using assms unfolding include_header_def header_directives_eq
  by (simp del: fun_upd_None_if_notin_dom)

text \<open>
  When the guard macro is already defined, every line between \<^verbatim>\<open>#ifndef\<close> and
  \<^verbatim>\<open>#endif\<close> is skipped and the table is returned as it was.
\<close>

lemma include_again:
  assumes "m ''_lmic_project_config_h_'' = Some b"
  shows "include_header m = Inr m"
  using assms unfolding include_header_def header_directives_eq
  by simp

lemma include_header_total: "\<exists>m'. include_header m = Inr m'"
proof (cases "m ''_lmic_project_config_h_''")
  case None
  then show ?thesis by (simp only: include_first) blast
next
  case (Some b)
  then show ?thesis by (simp only: include_again) blast
qed

text \<open>Every inclusion leaves the guard macro defined.\<close>

lemma include_header_defines_guard:
  assumes "include_header m = Inr m'"
  shows "\<exists>b. m' ''_lmic_project_config_h_'' = Some b"
proof (cases "m ''_lmic_project_config_h_''")
  case None
  from include_first [of m] None assms show ?thesis
    by (auto simp del: fun_upd_None_if_notin_dom)
next
  case (Some b)
  with assms show ?thesis by (simp add: include_again)
qed

text \<open>
  Processed on its own, from the empty table, the header leaves exactly sixteen macros
  defined.
\<close>

lemma include_header_standalone_dom:
  "\<exists>m'. include_header Map.empty = Inr m' \<and>
     dom m' = {''_lmic_project_config_h_'', ''CFG_au915'', ''CFG_sx1262_radio'',
               ''DISABLE_PING'', ''DISABLE_BEACONS'', ''LMIC_DEBUG_LEVEL'',
               ''LMIC_PRINTF_TO'', ''LMIC_ENABLE_arbitrary_clock_error'',
               ''OSTICKS_PER_SEC'', ''LMIC_FAILURE_TO'', ''DISABLE_LMIC_FAILURE_TO'',
               ''LMIC_CLOCKERROR_PPM'', ''LMIC_USE_INTERRUPTS'',
               ''LMIC_SX1262_TXCO_STARTUP_DELAY'', ''LMIC_ENABLE_long_messages''}"
  using include_first [of Map.empty]
  by (auto simp del: fun_upd_None_if_notin_dom)

subsection \<open>Including the header twice\<close>

lemma include_header_fixed:
  assumes "include_header m = Inr m1"
  shows "include_header m1 = Inr m1"
proof -
  from include_header_defines_guard [OF assms]
  obtain b where "m1 ''_lmic_project_config_h_'' = Some b" ..
  then show ?thesis by (rule include_again)
qed

lemma include_times_fixed:
  assumes "include_header m1 = Inr m1"
  shows "include_times n m1 = Inr m1"
  using assms by (induction n) simp_all

section \<open>The claims about the configuration\<close>

text \<open>
  The claims about single macros are stated for the first inclusion of the header in a
  translation unit, that is for every macro table in which the guard macro is not yet
  defined, whatever else the table holds (macros predefined on the compiler's command
  line, say). Each one is then instantiated at the empty table.
\<close>

text \<open>
  Claim C1. After the header is processed, \<^verbatim>\<open>CFG_au915\<close> is defined with the value 1,
  \<^verbatim>\<open>CFG_eu868\<close> and \<^verbatim>\<open>CFG_us915\<close> are undefined, and so every region flag the header names
  other than the AU915 one is not set.
\<close>

theorem config_selects_region_au915:
  assumes "m ''_lmic_project_config_h_'' = None"
  shows "\<exists>m'. include_header m = Inr m' \<and>
     m' ''CFG_au915'' = Some ''1'' \<and>
     macro_value m' ''CFG_au915'' = Some 1 \<and>
     m' ''CFG_eu868'' = None \<and>
     m' ''CFG_us915'' = None \<and>
     (\<forall>f \<in> set region_flags. f \<noteq> ''CFG_au915'' \<longrightarrow> m' f = None)"
  using include_first [of m] assms
  by (simp add: region_flags_def macro_value_def is_digit_def del: fun_upd_None_if_notin_dom)

theorem config_selects_region_au915_witness:
  "(Map.empty :: macros) ''_lmic_project_config_h_'' = None \<and>
   (\<exists>m'. include_header Map.empty = Inr m' \<and>
     m' ''CFG_au915'' = Some ''1'' \<and>
     macro_value m' ''CFG_au915'' = Some 1 \<and>
     m' ''CFG_eu868'' = None \<and>
     m' ''CFG_us915'' = None \<and>
     (\<forall>f \<in> set region_flags. f \<noteq> ''CFG_au915'' \<longrightarrow> m' f = None))"
  using config_selects_region_au915 [of Map.empty]
  by simp

text \<open>
  Claim C2. After the header is processed, \<^verbatim>\<open>CFG_sx1262_radio\<close> is defined with the value 1 and
  the flags of the other radios, \<^verbatim>\<open>CFG_sx1276_radio\<close> and \<^verbatim>\<open>CFG_sx1272_radio\<close>, are
  undefined.
\<close>

theorem config_selects_radio_sx1262:
  assumes "m ''_lmic_project_config_h_'' = None"
  shows "\<exists>m'. include_header m = Inr m' \<and>
     m' ''CFG_sx1262_radio'' = Some ''1'' \<and>
     macro_value m' ''CFG_sx1262_radio'' = Some 1 \<and>
     m' ''CFG_sx1276_radio'' = None \<and>
     m' ''CFG_sx1272_radio'' = None \<and>
     (\<forall>f \<in> set radio_flags. f \<noteq> ''CFG_sx1262_radio'' \<longrightarrow> m' f = None)"
  using include_first [of m] assms
  by (simp add: radio_flags_def macro_value_def is_digit_def del: fun_upd_None_if_notin_dom)

theorem config_selects_radio_sx1262_witness:
  "(Map.empty :: macros) ''_lmic_project_config_h_'' = None \<and>
   (\<exists>m'. include_header Map.empty = Inr m' \<and>
     m' ''CFG_sx1262_radio'' = Some ''1'' \<and>
     macro_value m' ''CFG_sx1262_radio'' = Some 1 \<and>
     m' ''CFG_sx1276_radio'' = None \<and>
     m' ''CFG_sx1272_radio'' = None \<and>
     (\<forall>f \<in> set radio_flags. f \<noteq> ''CFG_sx1262_radio'' \<longrightarrow> m' f = None))"
  using config_selects_radio_sx1262 [of Map.empty]
  by simp

text \<open>
  Claim C3. After the header is processed, both \<^verbatim>\<open>DISABLE_PING\<close> and \<^verbatim>\<open>DISABLE_BEACONS\<close> are
  defined (with an empty replacement text), the two switches by which the stack leaves
  out ping slots and beacons, that is everything beyond Class A.
\<close>

theorem config_disables_ping_and_beacons:
  assumes "m ''_lmic_project_config_h_'' = None"
  shows "\<exists>m'. include_header m = Inr m' \<and>
     ''DISABLE_PING'' \<in> dom m' \<and>
     ''DISABLE_BEACONS'' \<in> dom m' \<and>
     m' ''DISABLE_PING'' = Some [] \<and>
     m' ''DISABLE_BEACONS'' = Some []"
  using include_first [of m] assms
  by (simp add: dom_def del: fun_upd_None_if_notin_dom)

theorem config_disables_ping_and_beacons_witness:
  "(Map.empty :: macros) ''_lmic_project_config_h_'' = None \<and>
   (\<exists>m'. include_header Map.empty = Inr m' \<and>
     ''DISABLE_PING'' \<in> dom m' \<and>
     ''DISABLE_BEACONS'' \<in> dom m' \<and>
     m' ''DISABLE_PING'' = Some [] \<and>
     m' ''DISABLE_BEACONS'' = Some [])"
  using config_disables_ping_and_beacons [of Map.empty]
  by simp

text \<open>
  Claim C4. After the header is processed, \<^verbatim>\<open>LMIC_CLOCKERROR_PPM\<close> is defined with the value 10
  and \<^verbatim>\<open>LMIC_ENABLE_arbitrary_clock_error\<close> with the value 1.
\<close>

theorem config_clock_error_10_ppm:
  assumes "m ''_lmic_project_config_h_'' = None"
  shows "\<exists>m'. include_header m = Inr m' \<and>
     m' ''LMIC_CLOCKERROR_PPM'' = Some ''10'' \<and>
     macro_value m' ''LMIC_CLOCKERROR_PPM'' = Some 10 \<and>
     m' ''LMIC_ENABLE_arbitrary_clock_error'' = Some ''1'' \<and>
     macro_value m' ''LMIC_ENABLE_arbitrary_clock_error'' = Some 1"
  using include_first [of m] assms
  by (simp add: macro_value_def is_digit_def del: fun_upd_None_if_notin_dom)

theorem config_clock_error_10_ppm_witness:
  "(Map.empty :: macros) ''_lmic_project_config_h_'' = None \<and>
   (\<exists>m'. include_header Map.empty = Inr m' \<and>
     m' ''LMIC_CLOCKERROR_PPM'' = Some ''10'' \<and>
     macro_value m' ''LMIC_CLOCKERROR_PPM'' = Some 10 \<and>
     m' ''LMIC_ENABLE_arbitrary_clock_error'' = Some ''1'' \<and>
     macro_value m' ''LMIC_ENABLE_arbitrary_clock_error'' = Some 1)"
  using config_clock_error_10_ppm [of Map.empty]
  by simp

text \<open>
  Claim C5. After the header is processed, \<^verbatim>\<open>LMIC_USE_INTERRUPTS\<close> is defined.
\<close>

theorem config_uses_interrupts:
  assumes "m ''_lmic_project_config_h_'' = None"
  shows "\<exists>m'. include_header m = Inr m' \<and>
     ''LMIC_USE_INTERRUPTS'' \<in> dom m' \<and>
     m' ''LMIC_USE_INTERRUPTS'' = Some []"
  using include_first [of m] assms
  by (simp add: dom_def del: fun_upd_None_if_notin_dom)

theorem config_uses_interrupts_witness:
  "(Map.empty :: macros) ''_lmic_project_config_h_'' = None \<and>
   (\<exists>m'. include_header Map.empty = Inr m' \<and>
     ''LMIC_USE_INTERRUPTS'' \<in> dom m' \<and>
     m' ''LMIC_USE_INTERRUPTS'' = Some [])"
  using config_uses_interrupts [of Map.empty]
  by simp

text \<open>
  Claim C6. After the header is processed, \<^verbatim>\<open>DISABLE_LMIC_FAILURE_TO\<close> is defined, verbose
  debug output is requested (\<^verbatim>\<open>LMIC_DEBUG_LEVEL\<close> is 2 and \<^verbatim>\<open>LMIC_PRINTF_TO\<close> is
  \<^verbatim>\<open>Serial.printf\<close>), and \<^verbatim>\<open>LMIC_FAILURE_TO\<close> is defined as well, as \<^verbatim>\<open>Serial.printf\<close>:
  the destination of failure output and the flag that disables it are both set.
\<close>

theorem config_failure_output_both_set_and_disabled:
  assumes "m ''_lmic_project_config_h_'' = None"
  shows "\<exists>m'. include_header m = Inr m' \<and>
     ''DISABLE_LMIC_FAILURE_TO'' \<in> dom m' \<and>
     m' ''LMIC_DEBUG_LEVEL'' = Some ''2'' \<and>
     macro_value m' ''LMIC_DEBUG_LEVEL'' = Some 2 \<and>
     m' ''LMIC_PRINTF_TO'' = Some ''Serial.printf'' \<and>
     m' ''LMIC_FAILURE_TO'' = Some ''Serial.printf'' \<and>
     ''LMIC_FAILURE_TO'' \<in> dom m'"
  using include_first [of m] assms
  by (simp add: dom_def macro_value_def is_digit_def del: fun_upd_None_if_notin_dom)

theorem config_failure_output_both_set_and_disabled_witness:
  "(Map.empty :: macros) ''_lmic_project_config_h_'' = None \<and>
   (\<exists>m'. include_header Map.empty = Inr m' \<and>
     ''DISABLE_LMIC_FAILURE_TO'' \<in> dom m' \<and>
     m' ''LMIC_DEBUG_LEVEL'' = Some ''2'' \<and>
     macro_value m' ''LMIC_DEBUG_LEVEL'' = Some 2 \<and>
     m' ''LMIC_PRINTF_TO'' = Some ''Serial.printf'' \<and>
     m' ''LMIC_FAILURE_TO'' = Some ''Serial.printf'' \<and>
     ''LMIC_FAILURE_TO'' \<in> dom m')"
  using config_failure_output_both_set_and_disabled [of Map.empty]
  by simp

text \<open>
  Claim C9. After the header is processed, \<^verbatim>\<open>OSTICKS_PER_SEC\<close> is defined with the value
  32768: the tick rate of the clock is fixed at 32768 ticks per second.
\<close>

theorem config_osticks_per_sec_32768:
  assumes "m ''_lmic_project_config_h_'' = None"
  shows "\<exists>m'. include_header m = Inr m' \<and>
     m' ''OSTICKS_PER_SEC'' = Some ''32768'' \<and>
     macro_value m' ''OSTICKS_PER_SEC'' = Some 32768"
  using include_first [of m] assms
  by (simp add: macro_value_def is_digit_def del: fun_upd_None_if_notin_dom)

theorem config_osticks_per_sec_32768_witness:
  "(Map.empty :: macros) ''_lmic_project_config_h_'' = None \<and>
   (\<exists>m'. include_header Map.empty = Inr m' \<and>
     m' ''OSTICKS_PER_SEC'' = Some ''32768'' \<and>
     macro_value m' ''OSTICKS_PER_SEC'' = Some 32768)"
  using config_osticks_per_sec_32768 [of Map.empty]
  by simp

text \<open>
  Claim C10. Including the header is idempotent: from any macro table, including it
  \<open>n + 1\<close> times in a row succeeds and leaves the same table as including it once, and
  that table is not changed by a further inclusion.
\<close>

theorem include_header_idempotent:
  "include_times (Suc n) m = include_times 1 m \<and>
   (\<exists>m1. include_times 1 m = Inr m1 \<and> include_header m1 = Inr m1)"
proof -
  from include_header_total obtain m1 where once: "include_header m = Inr m1" ..
  from once have fixed: "include_header m1 = Inr m1" by (rule include_header_fixed)
  have "include_times k m1 = Inr m1" for k
    using fixed by (rule include_times_fixed)
  with once fixed show ?thesis by simp
qed

theorem include_header_idempotent_witness:
  "include_times (Suc 2) Map.empty = include_times 1 Map.empty \<and>
   (\<exists>m1. include_times 1 Map.empty = Inr m1 \<and> include_header m1 = Inr m1)"
  using include_header_idempotent [of 2 Map.empty]
  by simp

end
